theory Spec2Isabelle
  imports Main "HOL-Library.AList"
begin

section \<open>Values and coordinates\<close>

text \<open>
  A coordinate component is a JavaScript number or \<open>null\<close> (the random placement
  strategy stores \<open>[ null, null ]\<close> as the position of an unplaced ship). Numbers are
  modelled as unbounded integers, \<open>null\<close> as \<open>None\<close>. A position is the two-element
  array \<open>[ x, y ]\<close>.
\<close>

type_synonym coord = "int option"

type_synonym position = "coord \<times> coord"

text \<open>
  The relational operators of the source convert \<open>null\<close> to the number 0 before they
  compare.
\<close>

definition toNumber :: "coord \<Rightarrow> int" where
  "toNumber c = (case c of None \<Rightarrow> 0 | Some v \<Rightarrow> v)"

subsection \<open>The key of a position: \<open>position.join( 'x' )\<close>\<close>

text \<open>
  \<open>Array.prototype.join\<close> renders a number in decimal, with a leading minus sign when
  it is negative, and renders \<open>null\<close> as the empty string.
\<close>

definition digit :: "nat \<Rightarrow> char" where
  "digit d = char_of (48 + d)"

fun digits :: "nat \<Rightarrow> string" where
  "digits n = (if n < 10 then [digit n] else digits (n div 10) @ [digit (n mod 10)])"

declare digits.simps [simp del]

definition numberToString :: "int \<Rightarrow> string" where
  "numberToString i = (if i < 0 then CHR ''-'' # digits (nat (- i)) else digits (nat i))"

definition elementToString :: "coord \<Rightarrow> string" where
  "elementToString c = (case c of None \<Rightarrow> [] | Some v \<Rightarrow> numberToString v)"

definition join_x :: "position \<Rightarrow> string" where
  "join_x p = elementToString (fst p) @ ''x'' @ elementToString (snd p)"

section \<open>Field\<close>

text \<open>
  Modelled from the spec: the class \<open>Field\<close> (\<open>field.js\<close>) is imported by
  \<open>battlefield.js\<close> but is not part of the sources. A field has a position, the ships
  that occupy it (each ship is referred to by its unique id) and a marker. Its \<open>id\<close> is
  the key under which the battlefield stores it, the position joined with \<open>x\<close>.
\<close>

datatype marker = NoMarker | MarkedMissed | MarkedHit

record field =
  position_f :: position
  ships :: "nat list"
  marker :: marker

definition newField :: "position \<Rightarrow> field" where
  "newField pos = \<lparr>position_f = pos, ships = [], marker = NoMarker\<rparr>"

definition id_f :: "field \<Rightarrow> string" where
  "id_f f = join_x (position_f f)"

text \<open>Adding a ship that is already an occupant does not duplicate it.\<close>

definition addShip :: "field \<Rightarrow> nat \<Rightarrow> field" where
  "addShip f sid = (if sid \<in> set (ships f) then f else f\<lparr>ships := ships f @ [sid]\<rparr>)"

definition removeShip :: "field \<Rightarrow> nat \<Rightarrow> field" where
  "removeShip f sid = f\<lparr>ships := removeAll sid (ships f)\<rparr>"

text \<open>The occupant with the given id, or \<open>undefined\<close> (\<open>None\<close>).\<close>

definition getShip :: "field \<Rightarrow> nat \<Rightarrow> nat option" where
  "getShip f sid = (if sid \<in> set (ships f) then Some sid else None)"

definition length_f :: "field \<Rightarrow> nat" where
  "length_f f = length (ships f)"

definition markAsMissed_f :: "field \<Rightarrow> field" where
  "markAsMissed_f f = f\<lparr>marker := MarkedMissed\<rparr>"

definition markAsHit_f :: "field \<Rightarrow> field" where
  "markAsHit_f f = f\<lparr>marker := MarkedHit\<rparr>"

section \<open>Ship\<close>

text \<open>
  Modelled from the spec: the class \<open>Ship\<close> (\<open>ship.js\<close>) is not part of the
  sources. A ship has a fixed length, a head position, an orientation (not rotated: it
  extends in +x; rotated: it extends in +y) and a collision flag. The unplaced sentinel
  is \<open>[ null, null ]\<close>, as \<open>random()\<close> writes it.
\<close>

record ship =
  length_s :: int
  position :: position
  isRotated :: bool
  isCollision :: bool

definition hasPosition :: "ship \<Rightarrow> bool" where
  "hasPosition s = (case position s of (Some x, Some y) \<Rightarrow> True | _ \<Rightarrow> False)"

text \<open>
  The occupied cells: \<open>length\<close> consecutive cells from the head along the orientation
  axis; no cell when the ship is unplaced.
\<close>

definition getCoordinates :: "ship \<Rightarrow> position list" where
  "getCoordinates s =
     (case position s of
        (Some x, Some y) \<Rightarrow>
          map (\<lambda>i. if isRotated s then (Some x, Some (y + int i)) else (Some (x + int i), Some y))
            [0 ..< nat (length_s s)]
      | _ \<Rightarrow> [])"

text \<open>The last occupied cell; \<open>undefined\<close> (\<open>None\<close>) when there is none.\<close>

definition tail :: "ship \<Rightarrow> position option" where
  "tail s = (case getCoordinates s of [] \<Rightarrow> None | c # cs \<Rightarrow> Some (last (c # cs)))"

definition reset_s :: "ship \<Rightarrow> ship" where
  "reset_s s = s\<lparr>position := (None, None), isRotated := False, isCollision := False\<rparr>"

section \<open>Battlefield\<close>

text \<open>
  The state of a battlefield: its attributes, the events fired so far, and the store of
  the ship objects its collection and its fields refer to. A ship object is addressed
  by its id, which the spec makes unique, so \<open>heap b sid\<close> is the ship with id \<open>sid\<close>.
  The index \<open>_fields\<close> is a JavaScript \<open>Map\<close> from keys to fields; it is kept as an
  association list in insertion order. \<open>shipsSchema\<close> is stored by the constructor and
  read by none of the operations below, so it is left out, as is the listener that the
  constructor puts on the \<open>add\<close> event of the collection.
\<close>

datatype event = Missed position | Hit position | ShipMoved nat

record battlefield =
  size_b :: int
  isLocked :: bool
  shipsCollection :: "nat list"
  fields_b :: "(string \<times> field) list"
  fired :: "event list"
  heap :: "nat \<Rightarrow> ship"

definition getField :: "battlefield \<Rightarrow> position \<Rightarrow> field option" where
  "getField b pos = map_of (fields_b b) (join_x pos)"

definition getFieldOrCreate :: "battlefield \<Rightarrow> position \<Rightarrow> field \<times> battlefield" where
  "getFieldOrCreate b pos =
     (case getField b pos of
        Some f \<Rightarrow> (f, b)
      | None \<Rightarrow>
          (let f = newField pos
           in (f, b\<lparr>fields_b := AList.update (id_f f) f (fields_b b)\<rparr>)))"

text \<open>
  A field object is reachable only through the index, so a method that changes the field
  returned for \<open>pos\<close> changes the entry stored under the key of \<open>pos\<close>.
\<close>

definition markAsMissed :: "battlefield \<Rightarrow> position \<Rightarrow> battlefield" where
  "markAsMissed b pos =
     (case getFieldOrCreate b pos of
        (f, b1) \<Rightarrow>
          b1\<lparr>fields_b := AList.update (join_x pos) (markAsMissed_f f) (fields_b b1),
             fired := fired b1 @ [Missed pos]\<rparr>)"

definition markAsHit :: "battlefield \<Rightarrow> position \<Rightarrow> battlefield" where
  "markAsHit b pos =
     (case getFieldOrCreate b pos of
        (f, b1) \<Rightarrow>
          b1\<lparr>fields_b := AList.update (join_x pos) (markAsHit_f f) (fields_b b1),
             fired := fired b1 @ [Hit pos]\<rparr>)"

text \<open>
  The \<open>type\<close> argument of \<open>markAs\<close> is any JavaScript value; a missing argument is
  \<open>undefined\<close>. A value is a primitive or an object. The test \<open>type == 'missed'\<close> is
  the loose equality. Against the string \<open>'missed'\<close> a string is equal when it is the
  same string; \<open>undefined\<close> and \<open>null\<close> equal only each other; a number or a boolean is
  compared with the number that \<open>'missed'\<close> converts to, which is NaN, and a BigInt with
  the BigInt that \<open>'missed'\<close> converts to, which does not exist, so both comparisons are
  false whatever the value is (numbers are carried as integers, as everywhere in this
  model); a symbol equals only itself.
\<close>

datatype primitive =
  JSUndefined | JSNull | JSBoolean bool | JSNumber int | JSString string | JSBigInt int
  | JSSymbol

definition primitiveEqualsMissed :: "primitive \<Rightarrow> bool" where
  "primitiveEqualsMissed p =
     (case p of
        JSString s \<Rightarrow> s = ''missed''
      | JSUndefined \<Rightarrow> False
      | JSNull \<Rightarrow> False
      | JSBoolean v \<Rightarrow> False
      | JSNumber n \<Rightarrow> False
      | JSBigInt n \<Rightarrow> False
      | JSSymbol \<Rightarrow> False)"

text \<open>
  An object is compared through its conversion to a primitive (\<open>valueOf\<close>, then
  \<open>toString\<close>), so it is represented by the outcome of that conversion: the primitive
  it yields, or \<open>None\<close> when the conversion throws a TypeError, as it does for
  \<open>Object.create( null )\<close>. Both \<open>new String( 'missed' )\<close> and the array \<open>[ 'missed' ]\<close>
  are \<open>JSObject (Some (JSString ''missed''))\<close>. A conversion method that changes the
  battlefield while it runs is outside the model.
\<close>

datatype jsval = JSPrimitive primitive | JSObject "primitive option"

datatype error = TypeError

definition looseEqualsMissed :: "jsval \<Rightarrow> error + bool" where
  "looseEqualsMissed t =
     (case t of
        JSPrimitive p \<Rightarrow> Inr (primitiveEqualsMissed p)
      | JSObject None \<Rightarrow> Inl TypeError
      | JSObject (Some p) \<Rightarrow> Inr (primitiveEqualsMissed p))"

definition markAs :: "battlefield \<Rightarrow> position \<Rightarrow> jsval \<Rightarrow> error + battlefield" where
  "markAs b pos t =
     (case looseEqualsMissed t of
        Inl e \<Rightarrow> Inl e
      | Inr missed \<Rightarrow> Inr (if missed then markAsMissed b pos else markAsHit b pos))"

subsection \<open>moveShip\<close>

text \<open>The body of the first loop: the ship leaves the field at one of its old cells.\<close>

definition leaveField :: "nat \<Rightarrow> battlefield \<Rightarrow> position \<Rightarrow> battlefield" where
  "leaveField sid b pos =
     (case getField b pos of
        None \<Rightarrow> b
      | Some f \<Rightarrow>
          if getShip f sid \<noteq> None then
            (if length_f f = 1 then b\<lparr>fields_b := AList.delete (join_x pos) (fields_b b)\<rparr>
             else b\<lparr>fields_b := AList.update (join_x pos) (removeShip f sid) (fields_b b)\<rparr>)
          else b)"

text \<open>The body of the second loop: the ship enters the field at one of its new cells.\<close>

definition enterField :: "nat \<Rightarrow> battlefield \<Rightarrow> position \<Rightarrow> battlefield" where
  "enterField sid b pos =
     (case getFieldOrCreate b pos of
        (f, b1) \<Rightarrow> b1\<lparr>fields_b := AList.update (join_x pos) (addShip f sid) (fields_b b1)\<rparr>)"

text \<open>
  \<open>moveShip( ship, position, isRotated )\<close>; the third argument is \<open>None\<close> when it is
  \<open>undefined\<close>. \<open>c > max ? max : c\<close> compares the number that \<open>c\<close> converts to.
\<close>

definition moveShip :: "battlefield \<Rightarrow> nat \<Rightarrow> position \<Rightarrow> bool option \<Rightarrow> battlefield" where
  "moveShip b sid pos rot =
     (if isLocked b then b
      else
        let s = heap b sid;
            isRot = (case rot of None \<Rightarrow> isRotated s | Some r \<Rightarrow> r);
            mx = size_b b - length_s s;
            x = fst pos;
            y = snd pos;
            y1 = (if isRot then (if toNumber y > mx then Some mx else y) else y);
            x1 = (if isRot then x else (if toNumber x > mx then Some mx else x));
            b1 = foldl (leaveField sid) b (getCoordinates s);
            s1 = s\<lparr>isRotated := isRot, position := (x1, y1)\<rparr>;
            b2 = b1\<lparr>heap := (heap b1)(sid := s1)\<rparr>;
            b3 = foldl (enterField sid) b2 (getCoordinates s1)
        in b3\<lparr>fired := fired b3 @ [ShipMoved sid]\<rparr>)"

definition rotateShip :: "battlefield \<Rightarrow> nat \<Rightarrow> battlefield" where
  "rotateShip b sid = moveShip b sid (position (heap b sid)) (Some (\<not> isRotated (heap b sid)))"

text \<open>
  \<open>isShipInBound\<close> reads \<open>ship.tail[ 0 ]\<close>, which throws when the tail is \<open>undefined\<close>;
  the result is then \<open>None\<close>. The conjunction is evaluated from left to right and stops
  at the first false operand.
\<close>

definition isShipInBound :: "battlefield \<Rightarrow> nat \<Rightarrow> bool option" where
  "isShipInBound b sid =
     (let s = heap b sid
      in if \<not> toNumber (fst (position s)) \<ge> 0 then Some False
         else case tail s of
           None \<Rightarrow> None
         | Some t \<Rightarrow>
             if \<not> toNumber (fst t) < size_b b then Some False
             else if \<not> toNumber (snd (position s)) \<ge> 0 then Some False
             else Some (toNumber (snd t) < size_b b))"

definition reset :: "battlefield \<Rightarrow> battlefield" where
  "reset b =
     (let b1 = b\<lparr>fields_b := []\<rparr>
      in foldl (\<lambda>c sid. c\<lparr>heap := (heap c)(sid := reset_s (heap c sid))\<rparr>) b1
           (shipsCollection b1))"

text \<open>Iterating a battlefield yields the values of the index.\<close>

definition iterator :: "battlefield \<Rightarrow> field list" where
  "iterator b = map snd (fields_b b)"

subsection \<open>Construction\<close>

text \<open>
  Modelled from the spec: a ship is created with a fixed length, unplaced, not rotated
  and without collision.
\<close>

definition newShip :: "int \<Rightarrow> ship" where
  "newShip len =
     \<lparr>length_s = len, position = (None, None), isRotated = False, isCollision = False\<rparr>"

text \<open>The constructor \<open>new Battlefield( size )\<close>, over a store of ship objects.\<close>

definition newBattlefield :: "int \<Rightarrow> (nat \<Rightarrow> ship) \<Rightarrow> battlefield" where
  "newBattlefield n h =
     \<lparr>size_b = n, isLocked = False, shipsCollection = [], fields_b = [], fired = [], heap = h\<rparr>"

section \<open>Notions used by the properties\<close>

text \<open>The component of the head on the orientation axis: x when not rotated, y when rotated.\<close>

definition headOnAxis :: "ship \<Rightarrow> coord" where
  "headOnAxis s = (if isRotated s then snd (position s) else fst (position s))"

text \<open>That component is a number in \<open>[0, size - length]\<close>.\<close>

definition headClamped :: "battlefield \<Rightarrow> nat \<Rightarrow> bool" where
  "headClamped b sid =
     (case headOnAxis (heap b sid) of
        None \<Rightarrow> False
      | Some v \<Rightarrow> 0 \<le> v \<and> v \<le> size_b b - length_s (heap b sid))"

text \<open>Both components of a position are numbers in \<open>[0, size)\<close>.\<close>

definition within :: "battlefield \<Rightarrow> position \<Rightarrow> bool" where
  "within b p =
     (case p of
        (Some x, Some y) \<Rightarrow> 0 \<le> x \<and> x < size_b b \<and> 0 \<le> y \<and> y < size_b b
      | _ \<Rightarrow> False)"

section \<open>Example boards\<close>

text \<open>A store in which the ship with id \<open>n\<close> has length \<open>n + 1\<close>, all ships new.\<close>

definition fleet :: "nat \<Rightarrow> ship" where
  "fleet sid = newShip (1 + int sid)"

text \<open>A 5 x 5 battlefield whose collection holds the ships 0, 1 and 2.\<close>

definition harbour :: battlefield where
  "harbour = (newBattlefield 5 fleet)\<lparr>shipsCollection := [0, 1, 2]\<rparr>"

section \<open>Occupancy\<close>

text \<open>The ship \<open>sid\<close> is an occupant of the field that \<open>getField\<close> returns for a position.\<close>

definition registered :: "battlefield \<Rightarrow> nat \<Rightarrow> position \<Rightarrow> bool" where
  "registered b sid pos =
     (case getField b pos of None \<Rightarrow> False | Some f \<Rightarrow> getShip f sid \<noteq> None)"

text \<open>An entry of the index lists the ship \<open>sid\<close>.\<close>

definition occupies :: "nat \<Rightarrow> field option \<Rightarrow> bool" where
  "occupies sid fo = (case fo of None \<Rightarrow> False | Some f \<Rightarrow> sid \<in> set (ships f))"

text \<open>
  What the first loop of \<open>moveShip\<close> makes of the entry under the key of an old cell,
  and what the second loop makes of the entry under the key of the new cell \<open>p\<close>.
\<close>

definition vacated :: "nat \<Rightarrow> field option \<Rightarrow> field option" where
  "vacated sid fo =
     (case fo of
        None \<Rightarrow> None
      | Some f \<Rightarrow>
          if sid \<in> set (ships f) then
            (if length (ships f) = 1 then None else Some (removeShip f sid))
          else Some f)"

definition entered :: "nat \<Rightarrow> position \<Rightarrow> field option \<Rightarrow> field option" where
  "entered sid p fo = Some (addShip (case fo of None \<Rightarrow> newField p | Some f \<Rightarrow> f) sid)"

text \<open>
  The ships 0 and 1 are moved to \<open>[ 1, 1 ]\<close>; then \<open>[ 1, 1 ]\<close> is marked hit and
  \<open>[ 2, 1 ]\<close>, where only ship 1 lies, is marked missed.
\<close>

definition shotBoard :: battlefield where
  "shotBoard =
     markAsMissed
       (markAsHit (moveShip (moveShip harbour 0 (Some 1, Some 1) None) 1 (Some 1, Some 1) None)
          (Some 1, Some 1))
       (Some 2, Some 1)"

section \<open>The random placement strategy\<close>















section \<open>Properties of the key encoding\<close>

lemma digit_inj: "a < 10 \<Longrightarrow> b < 10 \<Longrightarrow> digit a = digit b \<Longrightarrow> a = b"
proof -
  assume a: "a < 10" and b: "b < 10" and e: "digit a = digit b"
  from e have "(of_char (char_of (48 + a) :: char) :: nat) = of_char (char_of (48 + b) :: char)"
    by (simp add: digit_def)
  then have "(48 + a) mod 256 = (48 + b) mod 256"
    by simp
  with a b show "a = b"
    by simp
qed

lemma digit_range: "d < 10 \<Longrightarrow> of_char (digit d) = 48 + d"
  by (simp add: digit_def)

lemma digit_not_x: "d < 10 \<Longrightarrow> digit d \<noteq> CHR ''x''"
proof
  assume d: "d < 10" and e: "digit d = CHR ''x''"
  from e have "(of_char (digit d) :: nat) = of_char (CHR ''x'')"
    by simp
  with d show False
    by (simp add: digit_range)
qed

lemma digit_not_minus: "d < 10 \<Longrightarrow> digit d \<noteq> CHR ''-''"
proof
  assume d: "d < 10" and e: "digit d = CHR ''-''"
  from e have "(of_char (digit d) :: nat) = of_char (CHR ''-'')"
    by simp
  with d show False
    by (simp add: digit_range)
qed

lemma digits_not_Nil: "digits n \<noteq> []"
  by (subst digits.simps) simp

lemma digits_no_x: "CHR ''x'' \<notin> set (digits n)"
proof (induction n rule: digits.induct)
  case (1 n)
  show ?case
  proof (cases "n < 10")
    case True
    then show ?thesis
      using digit_not_x [of n] by (subst digits.simps) auto
  next
    case False
    then show ?thesis
      using "1" digit_not_x [of "n mod 10"] by (subst digits.simps) auto
  qed
qed

lemma digits_no_minus: "CHR ''-'' \<notin> set (digits n)"
proof (induction n rule: digits.induct)
  case (1 n)
  show ?case
  proof (cases "n < 10")
    case True
    then show ?thesis
      using digit_not_minus [of n] by (subst digits.simps) auto
  next
    case False
    then show ?thesis
      using "1" digit_not_minus [of "n mod 10"] by (subst digits.simps) auto
  qed
qed

lemma digits_length_ge2: "\<not> n < 10 \<Longrightarrow> 2 \<le> length (digits n)"
proof -
  assume n: "\<not> n < 10"
  have "1 \<le> length (digits (n div 10))"
    using digits_not_Nil [of "n div 10"] by (cases "digits (n div 10)") simp_all
  with n show ?thesis
    by (subst digits.simps) simp
qed

lemma digits_inj: "digits n = digits m \<Longrightarrow> n = m"
proof (induction n arbitrary: m rule: digits.induct)
  case (1 n)
  show ?case
  proof (cases "n < 10")
    case small_n: True
    show ?thesis
    proof (cases "m < 10")
      case True
      with small_n "1.prems" show ?thesis
        by (simp add: digits.simps [of n] digits.simps [of m] digit_inj)
    next
      case False
      then have "2 \<le> length (digits m)"
        by (rule digits_length_ge2)
      moreover from small_n have "length (digits n) = 1"
        by (simp add: digits.simps [of n])
      ultimately show ?thesis
        using "1.prems" by simp
    qed
  next
    case big_n: False
    show ?thesis
    proof (cases "m < 10")
      case True
      then have "length (digits m) = 1"
        by (simp add: digits.simps [of m])
      moreover from big_n have "2 \<le> length (digits n)"
        by (rule digits_length_ge2)
      ultimately show ?thesis
        using "1.prems" by simp
    next
      case False
      with big_n "1.prems"
      have "digits (n div 10) @ [digit (n mod 10)] = digits (m div 10) @ [digit (m mod 10)]"
        by (simp add: digits.simps [of n] digits.simps [of m])
      then have init_eq: "digits (n div 10) = digits (m div 10)"
        and last_eq: "digit (n mod 10) = digit (m mod 10)"
        by simp_all
      from init_eq big_n have "n div 10 = m div 10"
        by (rule "1.IH" [rotated])
      moreover from last_eq have "n mod 10 = m mod 10"
        by (rule digit_inj [rotated 2]) simp_all
      ultimately show ?thesis
        by (metis div_mult_mod_eq)
    qed
  qed
qed

lemma numberToString_inj: "numberToString i = numberToString j \<Longrightarrow> i = j"
proof -
  assume e: "numberToString i = numberToString j"
  have hd_digits: "\<And>n. hd (digits n) \<noteq> CHR ''-''"
    using digits_no_minus digits_not_Nil by (metis hd_in_set)
  show "i = j"
  proof (cases "i < 0")
    case neg_i: True
    show ?thesis
    proof (cases "j < 0")
      case True
      with neg_i e have "digits (nat (- i)) = digits (nat (- j))"
        by (simp add: numberToString_def)
      then have "nat (- i) = nat (- j)"
        by (rule digits_inj)
      with neg_i True show ?thesis
        by simp
    next
      case False
      with neg_i e have "hd (digits (nat j)) = CHR ''-''"
        by (simp add: numberToString_def) (metis list.sel(1))
      with hd_digits show ?thesis
        by simp
    qed
  next
    case pos_i: False
    show ?thesis
    proof (cases "j < 0")
      case True
      with pos_i e have "hd (digits (nat i)) = CHR ''-''"
        by (simp add: numberToString_def)
      with hd_digits show ?thesis
        by simp
    next
      case False
      with pos_i e have "digits (nat i) = digits (nat j)"
        by (simp add: numberToString_def)
      then have "nat i = nat j"
        by (rule digits_inj)
      with pos_i False show ?thesis
        by simp
    qed
  qed
qed

lemma numberToString_no_x: "CHR ''x'' \<notin> set (numberToString i)"
  by (simp add: numberToString_def digits_no_x)

lemma numberToString_not_Nil: "numberToString i \<noteq> []"
  by (simp add: numberToString_def digits_not_Nil)

lemma elementToString_no_x: "CHR ''x'' \<notin> set (elementToString c)"
  by (simp add: elementToString_def numberToString_no_x split: option.splits)

lemma elementToString_inj: "elementToString c = elementToString d \<Longrightarrow> c = d"
  using numberToString_not_Nil
  by (auto simp: elementToString_def dest: numberToString_inj split: option.splits)
    (metis numberToString_not_Nil)

lemma split_at_x:
  assumes "a @ CHR ''x'' # b = c @ CHR ''x'' # d"
    and "CHR ''x'' \<notin> set a" and "CHR ''x'' \<notin> set c"
  shows "a = c \<and> b = d"
  using assms
proof (induction a arbitrary: c)
  case Nil
  then show ?case
    by (cases c) auto
next
  case (Cons h a)
  then show ?case
    by (cases c) auto
qed

lemma join_x_inj: "join_x p = join_x q \<Longrightarrow> p = q"
proof -
  assume "join_x p = join_x q"
  then have "elementToString (fst p) @ CHR ''x'' # elementToString (snd p)
    = elementToString (fst q) @ CHR ''x'' # elementToString (snd q)"
    by (simp add: join_x_def)
  then have "elementToString (fst p) = elementToString (fst q)
    \<and> elementToString (snd p) = elementToString (snd q)"
    by (rule split_at_x) (rule elementToString_no_x)+
  then show "p = q"
    by (auto dest: elementToString_inj intro: prod_eqI)
qed

lemma join_x_eq_iff: "join_x p = join_x q \<longleftrightarrow> p = q"
  by (auto dest: join_x_inj)

section \<open>The field index is keyed injectively\<close>

text \<open>
  Claim C8. The key of the field index, the two components of a coordinate joined with
  \<open>x\<close>, is injective over pairs of non-negative integers: two distinct pairs have
  different keys, so \<open>getField\<close> never reaches the same field from two coordinates.
\<close>

theorem key_injective:
  assumes "0 \<le> x1" and "0 \<le> y1" and "0 \<le> x2" and "0 \<le> y2"
    and "(x1, y1) \<noteq> (x2, y2)"
  shows "join_x (Some x1, Some y1) \<noteq> join_x (Some x2, Some y2)"
  using assms by (auto dest: join_x_inj)

theorem key_injective_witness:
  "(0::int) \<le> 1 \<and> (0::int) \<le> 11 \<and> ((1::int), (11::int)) \<noteq> (11, 1)
   \<and> join_x (Some 1, Some 11) \<noteq> join_x (Some 11, Some 1)"
  using key_injective [of 1 11 11 1] by simp

section \<open>moveShip: lock, frame and clamping\<close>

text \<open>
  Claim C5. On a locked battlefield \<open>moveShip\<close> changes nothing: the ship, the field
  index and the fired events (so no \<open>shipMoved\<close>) are those of the state before.
\<close>

theorem moveShip_locked:
  "isLocked b \<Longrightarrow> moveShip b sid pos rot = b"
  by (simp add: moveShip_def)

theorem moveShip_locked_witness:
  "isLocked ((newBattlefield 5 (\<lambda>_. newShip 2))\<lparr>isLocked := True\<rparr>)
   \<and> moveShip ((newBattlefield 5 (\<lambda>_. newShip 2))\<lparr>isLocked := True\<rparr>) 0
        (Some 1, Some 1) None
     = (newBattlefield 5 (\<lambda>_. newShip 2))\<lparr>isLocked := True\<rparr>"
  using moveShip_locked
    [of "(newBattlefield 5 (\<lambda>_. newShip 2))\<lparr>isLocked := True\<rparr>" 0 "(Some 1, Some 1)" None]
  by (simp add: newBattlefield_def)

text \<open>
  Claim C9. \<open>rotateShip( ship )\<close> is \<open>moveShip( ship, ship.position, !ship.isRotated )\<close>:
  the two give the same state, ship and events included.
\<close>

theorem rotateShip_is_moveShip:
  "rotateShip b sid = moveShip b sid (position (heap b sid)) (Some (\<not> isRotated (heap b sid)))"
  by (simp add: rotateShip_def)

lemma leaveField_frame:
  "heap (leaveField sid b p) = heap b \<and> size_b (leaveField sid b p) = size_b b
   \<and> isLocked (leaveField sid b p) = isLocked b
   \<and> shipsCollection (leaveField sid b p) = shipsCollection b
   \<and> fired (leaveField sid b p) = fired b"
  by (simp add: leaveField_def split: option.splits)

lemma enterField_frame:
  "heap (enterField sid b p) = heap b \<and> size_b (enterField sid b p) = size_b b
   \<and> isLocked (enterField sid b p) = isLocked b
   \<and> shipsCollection (enterField sid b p) = shipsCollection b
   \<and> fired (enterField sid b p) = fired b"
  by (simp add: enterField_def getFieldOrCreate_def Let_def split: option.splits)

lemma leaveAll_frame:
  "heap (foldl (leaveField sid) b ps) = heap b
   \<and> size_b (foldl (leaveField sid) b ps) = size_b b
   \<and> isLocked (foldl (leaveField sid) b ps) = isLocked b
   \<and> shipsCollection (foldl (leaveField sid) b ps) = shipsCollection b
   \<and> fired (foldl (leaveField sid) b ps) = fired b"
  by (induction ps arbitrary: b) (simp_all add: leaveField_frame)

lemma enterAll_frame:
  "heap (foldl (enterField sid) b ps) = heap b
   \<and> size_b (foldl (enterField sid) b ps) = size_b b
   \<and> isLocked (foldl (enterField sid) b ps) = isLocked b
   \<and> shipsCollection (foldl (enterField sid) b ps) = shipsCollection b
   \<and> fired (foldl (enterField sid) b ps) = fired b"
  by (induction ps arbitrary: b) (simp_all add: enterField_frame)

lemma moveShip_heap:
  "\<not> isLocked b \<Longrightarrow>
   heap (moveShip b sid pos rot) =
     (heap b)(sid := (heap b sid)\<lparr>
        isRotated := (case rot of None \<Rightarrow> isRotated (heap b sid) | Some r \<Rightarrow> r),
        position :=
          (if (case rot of None \<Rightarrow> isRotated (heap b sid) | Some r \<Rightarrow> r) then
             (fst pos, if toNumber (snd pos) > size_b b - length_s (heap b sid)
                       then Some (size_b b - length_s (heap b sid)) else snd pos)
           else
             (if toNumber (fst pos) > size_b b - length_s (heap b sid)
              then Some (size_b b - length_s (heap b sid)) else fst pos, snd pos))\<rparr>)"
  by (simp add: moveShip_def Let_def enterAll_frame leaveAll_frame)

lemma moveShip_frame:
  "size_b (moveShip b sid pos rot) = size_b b
   \<and> isLocked (moveShip b sid pos rot) = isLocked b
   \<and> shipsCollection (moveShip b sid pos rot) = shipsCollection b"
  by (simp add: moveShip_def Let_def enterAll_frame leaveAll_frame)

text \<open>
  Claim C1, as stated, fails: \<open>moveShip\<close> clamps the orientation-axis component from
  above only (\<open>x > max ? max : x\<close>). On a 5 x 5 battlefield a ship of length 2 moved
  to \<open>[ -1, 0 ]\<close>, not rotated, keeps the head component -1, outside \<open>[0, 3]\<close>.
\<close>

theorem moveShip_unclamped_below:
  "\<not> isLocked (newBattlefield 5 (\<lambda>_. newShip 2))
   \<and> \<not> headClamped
        (moveShip (newBattlefield 5 (\<lambda>_. newShip 2)) 0 (Some (- 1), Some 0) (Some False)) 0"
  by code_simp

text \<open>
  Claim C1, amended. After \<open>moveShip\<close> at \<open>[ x, y ]\<close> on an unlocked battlefield of
  size N, the head component of a ship of length L on the orientation axis is the minimum
  of the input component and \<open>N - L\<close>, so it is at most \<open>N - L\<close> for every input; it
  lies in \<open>[0, N - L]\<close> whenever the input component is not negative and \<open>L \<le> N\<close>.
\<close>

theorem moveShip_clamps_above:
  assumes "\<not> isLocked b"
  shows "headOnAxis (heap (moveShip b sid (Some x, Some y) rot) sid)
      = Some (min (if isRotated (heap (moveShip b sid (Some x, Some y) rot) sid) then y else x)
               (size_b b - length_s (heap b sid)))
    \<and> length_s (heap (moveShip b sid (Some x, Some y) rot) sid) = length_s (heap b sid)
    \<and> size_b (moveShip b sid (Some x, Some y) rot) = size_b b
    \<and> (0 \<le> (if isRotated (heap (moveShip b sid (Some x, Some y) rot) sid) then y else x)
         \<and> length_s (heap b sid) \<le> size_b b
       \<longrightarrow> headClamped (moveShip b sid (Some x, Some y) rot) sid)"
  using assms
  by (simp add: moveShip_heap moveShip_frame headOnAxis_def headClamped_def toNumber_def min_def)

theorem moveShip_clamps_above_witness:
  "\<not> isLocked (newBattlefield 5 (\<lambda>_. newShip 2))
   \<and> headOnAxis
       (heap (moveShip (newBattlefield 5 (\<lambda>_. newShip 2)) 0 (Some 9, Some 7) (Some False)) 0)
     = Some 3
   \<and> headClamped
       (moveShip (newBattlefield 5 (\<lambda>_. newShip 2)) 0 (Some 9, Some 7) (Some False)) 0"
  using moveShip_clamps_above [of "newBattlefield 5 (\<lambda>_. newShip 2)" 0 9 7 "Some False"]
  by (simp add: newBattlefield_def newShip_def moveShip_heap)

section \<open>markAs\<close>

lemma primitiveEqualsMissed_iff: "primitiveEqualsMissed p \<longleftrightarrow> p = JSString ''missed''"
  by (cases p) (simp_all add: primitiveEqualsMissed_def)

lemma markAsMissed_not_markAsHit: "markAsMissed b pos \<noteq> markAsHit b pos"
proof
  assume "markAsMissed b pos = markAsHit b pos"
  then have "fired (markAsMissed b pos) = fired (markAsHit b pos)"
    by simp
  then show False
    by (simp add: markAsMissed_def markAsHit_def split: prod.splits)
qed

text \<open>
  Claim C10, as stated, fails: \<open>type == 'missed'\<close> is the loose equality, so a value that
  is not the string \<open>'missed'\<close> but an object converting to it, such as
  \<open>new String( 'missed' )\<close> or \<open>[ 'missed' ]\<close>, is dispatched to \<open>markAsMissed\<close>, which
  is not what \<open>markAsHit\<close> does.
\<close>

theorem markAs_object_missed:
  "JSObject (Some (JSString ''missed'')) \<noteq> JSPrimitive (JSString ''missed'')
   \<and> markAs harbour (Some 0, Some 0) (JSObject (Some (JSString ''missed'')))
       = Inr (markAsMissed harbour (Some 0, Some 0))
   \<and> markAs harbour (Some 0, Some 0) (JSObject (Some (JSString ''missed'')))
       \<noteq> Inr (markAsHit harbour (Some 0, Some 0))"
  by (simp add: markAs_def looseEqualsMissed_def primitiveEqualsMissed_def
      markAsMissed_not_markAsHit)

text \<open>
  Claim C10, amended. For every position and every primitive \<open>type\<close> that is not the
  string \<open>'missed'\<close> (\<open>'hit'\<close>, any other string, a number, a boolean, \<open>null\<close>, a missing
  argument) \<open>markAs( position, type )\<close> behaves as \<open>markAsHit( position )\<close>, and for the
  string \<open>'missed'\<close> as \<open>markAsMissed( position )\<close>. An object is dispatched as the
  primitive it converts to, so one that converts to \<open>'missed'\<close> goes to \<open>markAsMissed\<close>
  and every other one to \<open>markAsHit\<close>; when the conversion throws, \<open>markAs\<close> throws and
  marks nothing.
\<close>

theorem markAs_dispatch:
  "markAs b pos (JSPrimitive p)
     = Inr (if p = JSString ''missed'' then markAsMissed b pos else markAsHit b pos)
   \<and> markAs b pos (JSObject (Some p))
     = Inr (if p = JSString ''missed'' then markAsMissed b pos else markAsHit b pos)
   \<and> markAs b pos (JSObject None) = Inl TypeError"
  by (simp add: markAs_def looseEqualsMissed_def primitiveEqualsMissed_iff)

theorem markAs_dispatch_witness:
  "markAs harbour (Some 0, Some 0) (JSPrimitive (JSString ''hit''))
     = Inr (markAsHit harbour (Some 0, Some 0))
   \<and> markAs harbour (Some 0, Some 0) (JSPrimitive JSUndefined)
     = Inr (markAsHit harbour (Some 0, Some 0))
   \<and> markAs harbour (Some 0, Some 0) (JSPrimitive (JSNumber 7))
     = Inr (markAsHit harbour (Some 0, Some 0))
   \<and> markAs harbour (Some 0, Some 0) (JSPrimitive (JSString ''missed''))
     = Inr (markAsMissed harbour (Some 0, Some 0))
   \<and> markAs harbour (Some 0, Some 0) (JSObject (Some (JSString ''[object Object]'')))
     = Inr (markAsHit harbour (Some 0, Some 0))
   \<and> markAs harbour (Some 0, Some 0) (JSObject None) = Inl TypeError
   \<and> fired (markAsMissed harbour (Some 0, Some 0)) = [Missed (Some 0, Some 0)]
   \<and> fired (markAsHit harbour (Some 0, Some 0)) = [Hit (Some 0, Some 0)]"
proof -
  have "fired (markAsMissed harbour (Some 0, Some 0)) = [Missed (Some 0, Some 0)]"
    and "fired (markAsHit harbour (Some 0, Some 0)) = [Hit (Some 0, Some 0)]"
    by (simp_all add: markAsMissed_def markAsHit_def getFieldOrCreate_def getField_def
        harbour_def newBattlefield_def Let_def)
  then show ?thesis
    using markAs_dispatch [of harbour "(Some 0, Some 0)" "JSString ''hit''"]
      markAs_dispatch [of harbour "(Some 0, Some 0)" JSUndefined]
      markAs_dispatch [of harbour "(Some 0, Some 0)" "JSNumber 7"]
      markAs_dispatch [of harbour "(Some 0, Some 0)" "JSString ''missed''"]
      markAs_dispatch [of harbour "(Some 0, Some 0)" "JSString ''[object Object]''"]
    by simp
qed

section \<open>isShipInBound\<close>

lemma getCoordinates_placed:
  "position s = (Some x, Some y) \<Longrightarrow>
   getCoordinates s =
     map (\<lambda>i. if isRotated s then (Some x, Some (y + int i)) else (Some (x + int i), Some y))
       [0 ..< nat (length_s s)]"
  by (simp add: getCoordinates_def)

lemma tail_placed:
  assumes "position s = (Some x, Some y)" and "1 \<le> length_s s"
  shows "tail s = Some (if isRotated s then (Some x, Some (y + length_s s - 1))
                        else (Some (x + length_s s - 1), Some y))"
proof -
  from assms(2) obtain n where n: "nat (length_s s) = Suc n"
    by (cases "nat (length_s s)") auto
  then have len: "length_s s = int n + 1"
    by linarith
  have "tail s = (if getCoordinates s = [] then None else Some (last (getCoordinates s)))"
    by (simp add: tail_def split: list.splits)
  then show ?thesis
    by (simp add: getCoordinates_placed [OF assms(1)] n len last_map del: upt_Suc)
qed

text \<open>
  Claim C6. For a placed ship (of a positive length, as every ship has) \<open>isShipInBound\<close>
  returns a boolean, and it is true exactly when the head and the tail both have both
  components in \<open>[0, size)\<close>.
\<close>

theorem isShipInBound_head_and_tail:
  assumes "hasPosition (heap b sid)" and "1 \<le> length_s (heap b sid)"
  shows "case tail (heap b sid) of
           None \<Rightarrow> False
         | Some t \<Rightarrow>
             isShipInBound b sid = Some (within b (position (heap b sid)) \<and> within b t)"
proof -
  from assms(1) obtain x y where pos: "position (heap b sid) = (Some x, Some y)"
    by (auto simp: hasPosition_def split: prod.splits option.splits)
  show ?thesis
    using assms(2)
    by (auto simp: tail_placed [OF pos assms(2)] isShipInBound_def Let_def pos toNumber_def
        within_def)
qed

theorem isShipInBound_head_and_tail_witness:
  "hasPosition (heap (moveShip (newBattlefield 5 fleet) 2 (Some 1, Some 4) (Some True)) 2)
   \<and> 1 \<le> length_s (heap (moveShip (newBattlefield 5 fleet) 2 (Some 1, Some 4) (Some True)) 2)
   \<and> tail (heap (moveShip (newBattlefield 5 fleet) 2 (Some 1, Some 4) (Some True)) 2)
       = Some (Some 1, Some 4)
   \<and> isShipInBound (moveShip (newBattlefield 5 fleet) 2 (Some 1, Some 4) (Some True)) 2
       = Some True"
  using isShipInBound_head_and_tail
    [of "moveShip (newBattlefield 5 fleet) 2 (Some 1, Some 4) (Some True)" 2]
  by (simp add: moveShip_heap moveShip_frame newBattlefield_def fleet_def newShip_def
      hasPosition_def within_def tail_def getCoordinates_def toNumber_def upt_rec)

section \<open>reset\<close>

lemma resetAll_heap:
  "heap (foldl (\<lambda>c sid. c\<lparr>heap := (heap c)(sid := reset_s (heap c sid))\<rparr>) b sids) i
     = (if i \<in> set sids then reset_s (heap b i) else heap b i)"
  by (induction sids arbitrary: b) (auto simp: reset_s_def)

lemma resetAll_frame:
  "fields_b (foldl (\<lambda>c sid. c\<lparr>heap := (heap c)(sid := reset_s (heap c sid))\<rparr>) b sids)
     = fields_b b
   \<and> shipsCollection
       (foldl (\<lambda>c sid. c\<lparr>heap := (heap c)(sid := reset_s (heap c sid))\<rparr>) b sids)
     = shipsCollection b"
  by (induction sids arbitrary: b) auto

text \<open>
  Claim C7. After \<open>reset()\<close> iterating the battlefield yields no field, and every ship
  of the collection has no position, no collision flag and is not rotated.
\<close>

theorem reset_clears:
  "iterator (reset b) = []
   \<and> shipsCollection (reset b) = shipsCollection b
   \<and> (\<forall>sid \<in> set (shipsCollection b).
        \<not> hasPosition (heap (reset b) sid)
        \<and> \<not> isCollision (heap (reset b) sid)
        \<and> \<not> isRotated (heap (reset b) sid))"
  by (simp add: reset_def Let_def iterator_def resetAll_heap resetAll_frame)
    (simp add: reset_s_def hasPosition_def)

theorem reset_clears_witness:
  "iterator (moveShip (moveShip harbour 1 (Some 1, Some 1) None) 2 (Some 1, Some 1) (Some True))
     \<noteq> []
   \<and> hasPosition
       (heap (moveShip (moveShip harbour 1 (Some 1, Some 1) None) 2 (Some 1, Some 1) (Some True))
          2)
   \<and> 2 \<in> set (shipsCollection
       (moveShip (moveShip harbour 1 (Some 1, Some 1) None) 2 (Some 1, Some 1) (Some True)))
   \<and> iterator
       (reset
          (moveShip (moveShip harbour 1 (Some 1, Some 1) None) 2 (Some 1, Some 1) (Some True)))
     = []
   \<and> \<not> hasPosition
       (heap
          (reset
             (moveShip (moveShip harbour 1 (Some 1, Some 1) None) 2 (Some 1, Some 1)
                (Some True)))
          2)"
proof -
  have "iterator
      (moveShip (moveShip harbour 1 (Some 1, Some 1) None) 2 (Some 1, Some 1) (Some True))
    \<noteq> []"
    by code_simp
  moreover have "hasPosition
      (heap (moveShip (moveShip harbour 1 (Some 1, Some 1) None) 2 (Some 1, Some 1) (Some True))
         2)"
    by code_simp
  moreover have "2 \<in> set (shipsCollection
      (moveShip (moveShip harbour 1 (Some 1, Some 1) None) 2 (Some 1, Some 1) (Some True)))"
    by code_simp
  ultimately show ?thesis
    using reset_clears
      [of "moveShip (moveShip harbour 1 (Some 1, Some 1) None) 2 (Some 1, Some 1) (Some True)"]
    by blast
qed

section \<open>moveShip and the field index\<close>

lemma vacated_idem: "vacated sid (vacated sid fo) = vacated sid fo"
  by (auto simp: vacated_def removeShip_def split: option.splits)

lemma not_occupies_vacated: "\<not> occupies sid (vacated sid fo)"
  by (auto simp: vacated_def occupies_def removeShip_def split: option.splits)

lemma vacated_other: "t \<noteq> sid \<Longrightarrow> occupies t (vacated sid fo) = occupies t fo"
  by (cases fo) (auto simp: vacated_def occupies_def removeShip_def length_Suc_conv)

lemma vacated_Some:
  "sid \<in> set (ships f) \<Longrightarrow>
   vacated sid (Some f) =
     (if length_f f = 1 then None else Some (f\<lparr>ships := removeAll sid (ships f)\<rparr>))"
  by (simp add: vacated_def length_f_def removeShip_def)

lemma vacated_None:
  "vacated sid (Some g) = None \<Longrightarrow> ships g = [sid]"
  by (cases "ships g") (auto simp: vacated_def split: if_splits)

lemma leaveField_index:
  "map_of (fields_b (leaveField sid b p)) k =
     (if k = join_x p then vacated sid (map_of (fields_b b) k) else map_of (fields_b b) k)"
  by (auto simp: leaveField_def getField_def getShip_def length_f_def vacated_def
      update_conv' delete_conv' split: option.splits)

lemma leaveAll_index:
  "map_of (fields_b (foldl (leaveField sid) b ps)) k =
     (if k \<in> join_x ` set ps then vacated sid (map_of (fields_b b) k)
      else map_of (fields_b b) k)"
  by (induction ps arbitrary: b) (auto simp: leaveField_index vacated_idem)

lemma enterField_index:
  "map_of (fields_b (enterField sid b p)) k =
     (if k = join_x p then entered sid p (map_of (fields_b b) k) else map_of (fields_b b) k)"
  by (auto simp: enterField_def getFieldOrCreate_def getField_def Let_def id_f_def newField_def
      entered_def update_conv' split: option.splits)

lemma occupies_entered: "occupies sid (entered sid p fo)"
  by (auto simp: occupies_def entered_def addShip_def split: option.splits)

lemma entered_other: "t \<noteq> sid \<Longrightarrow> occupies t (entered sid p fo) = occupies t fo"
  by (auto simp: occupies_def entered_def addShip_def newField_def split: option.splits)

lemma enterAll_outside:
  "k \<notin> join_x ` set ps \<Longrightarrow>
   map_of (fields_b (foldl (enterField sid) b ps)) k = map_of (fields_b b) k"
  by (induction ps arbitrary: b) (auto simp: enterField_index)

lemma enterAll_occupies:
  "occupies sid (map_of (fields_b (foldl (enterField sid) b ps)) k)
     \<longleftrightarrow> occupies sid (map_of (fields_b b) k) \<or> k \<in> join_x ` set ps"
  by (induction ps arbitrary: b) (auto simp: enterField_index occupies_entered)

lemma enterAll_present:
  "k \<in> join_x ` set ps \<Longrightarrow> map_of (fields_b (foldl (enterField sid) b ps)) k \<noteq> None"
  using enterAll_occupies [of sid b ps k] by (auto simp: occupies_def split: option.splits)

lemma enterAll_other:
  "t \<noteq> sid \<Longrightarrow>
   occupies t (map_of (fields_b (foldl (enterField sid) b ps)) k)
     = occupies t (map_of (fields_b b) k)"
  by (induction ps arbitrary: b) (auto simp: enterField_index entered_other)

lemma registered_occupies:
  "registered b sid p = occupies sid (map_of (fields_b b) (join_x p))"
  by (simp add: registered_def occupies_def getField_def getShip_def split: option.splits)

lemma moveShip_index:
  "\<not> isLocked b \<Longrightarrow>
   fields_b (moveShip b sid pos rot) =
     fields_b (foldl (enterField sid)
       ((foldl (leaveField sid) b (getCoordinates (heap b sid)))
          \<lparr>heap := heap (moveShip b sid pos rot)\<rparr>)
       (getCoordinates (heap (moveShip b sid pos rot) sid)))"
  by (simp add: moveShip_def Let_def enterAll_frame leaveAll_frame)

lemma heap_update_index:
  "map_of (fields_b (foldl (enterField sid) (b\<lparr>heap := h\<rparr>) ps)) k
    = map_of (fields_b (foldl (enterField sid) b ps)) k"
proof (induction ps arbitrary: b)
  case Nil
  show ?case by simp
next
  case (Cons p ps)
  have "enterField sid (b\<lparr>heap := h\<rparr>) p = (enterField sid b p)\<lparr>heap := h\<rparr>"
    by (simp add: enterField_def getFieldOrCreate_def getField_def Let_def split: option.splits)
  then show ?case
    using Cons.IH by simp
qed

lemma moveShip_index_at:
  assumes "\<not> isLocked b"
  shows "map_of (fields_b (moveShip b sid pos rot)) k =
    map_of (fields_b (foldl (enterField sid) (foldl (leaveField sid) b (getCoordinates (heap b sid)))
       (getCoordinates (heap (moveShip b sid pos rot) sid)))) k"
  by (simp add: moveShip_index [OF assms] heap_update_index)

lemma inj_join_x: "inj join_x"
  by (rule injI) (rule join_x_inj)

lemma join_x_mem: "join_x p \<in> join_x ` A \<longleftrightarrow> p \<in> A"
  by (rule inj_image_mem_iff [OF inj_join_x])

lemma moveShip_registered:
  assumes "\<not> isLocked b"
  shows "registered (moveShip b sid pos rot) sid p \<longleftrightarrow>
    (registered b sid p \<and> p \<notin> set (getCoordinates (heap b sid)))
    \<or> p \<in> set (getCoordinates (heap (moveShip b sid pos rot) sid))"
  by (simp add: registered_occupies moveShip_index_at [OF assms] enterAll_occupies
      leaveAll_index join_x_mem not_occupies_vacated)

lemma moveShip_registered_other:
  assumes "\<not> isLocked b" and "t \<noteq> sid"
  shows "registered (moveShip b sid pos rot) t p \<longleftrightarrow> registered b t p"
  using assms(2)
  by (simp add: registered_occupies moveShip_index_at [OF assms(1)] enterAll_other
      leaveAll_index vacated_other)

lemma moveShip_position_numbers:
  assumes "\<not> isLocked b"
  shows "\<exists>u v. position (heap (moveShip b sid (Some x, Some y) rot) sid) = (Some u, Some v)"
  by (simp add: moveShip_heap [OF assms])

lemma getCoordinates_distinct: "distinct (getCoordinates s)"
  by (auto simp: getCoordinates_def distinct_map inj_on_def split: prod.splits option.splits)

lemma getCoordinates_length:
  "position s = (Some u, Some v) \<Longrightarrow> length (getCoordinates s) = nat (length_s s)"
  by (simp add: getCoordinates_def)

text \<open>
  Claim C3, as stated, fails: a ship stays registered on an old cell that is also one of
  its new cells. Ship 1 (length 2) lies on \<open>[ 1, 1 ]\<close> and \<open>[ 2, 1 ]\<close>; moved to
  \<open>[ 2, 1 ]\<close> it is registered on \<open>[ 2, 1 ]\<close>, a cell it occupied before the call.
\<close>

theorem moveShip_stays_on_shared_cell:
  "\<not> isLocked (moveShip harbour 1 (Some 1, Some 1) None)
   \<and> (Some 2, Some 1) \<in> set (getCoordinates (heap (moveShip harbour 1 (Some 1, Some 1) None) 1))
   \<and> registered (moveShip (moveShip harbour 1 (Some 1, Some 1) None) 1 (Some 2, Some 1) None) 1
       (Some 2, Some 1)"
  by code_simp

text \<open>
  Claim C3, amended. Let the ship be registered, before the call, on no field outside
  its coordinates (every state that the operations of the battlefield build is such). After
  an unlocked \<open>moveShip\<close> at a position of two numbers the ship is registered on exactly
  the fields of its new coordinates, which are L distinct cells, and on none of the old
  cells that is not also a new cell.
\<close>

theorem moveShip_registers:
  assumes "\<not> isLocked b"
    and "0 \<le> length_s (heap b sid)"
    and "\<forall>p. registered b sid p \<longrightarrow> p \<in> set (getCoordinates (heap b sid))"
  shows "(\<forall>p. registered (moveShip b sid (Some x, Some y) rot) sid p
            \<longleftrightarrow> p \<in> set (getCoordinates (heap (moveShip b sid (Some x, Some y) rot) sid)))
    \<and> distinct (getCoordinates (heap (moveShip b sid (Some x, Some y) rot) sid))
    \<and> int (length (getCoordinates (heap (moveShip b sid (Some x, Some y) rot) sid)))
        = length_s (heap b sid)
    \<and> (\<forall>p \<in> set (getCoordinates (heap b sid)).
          p \<notin> set (getCoordinates (heap (moveShip b sid (Some x, Some y) rot) sid))
          \<longrightarrow> \<not> registered (moveShip b sid (Some x, Some y) rot) sid p)"
proof -
  let ?b' = "moveShip b sid (Some x, Some y) rot"
  have reg: "\<And>p. registered ?b' sid p \<longleftrightarrow> p \<in> set (getCoordinates (heap ?b' sid))"
    using assms(3) by (auto simp: moveShip_registered [OF assms(1)])
  obtain u v where pos: "position (heap ?b' sid) = (Some u, Some v)"
    using moveShip_position_numbers [OF assms(1)] by blast
  have len: "length_s (heap ?b' sid) = length_s (heap b sid)"
    by (simp add: moveShip_heap [OF assms(1)])
  have "int (length (getCoordinates (heap ?b' sid))) = length_s (heap b sid)"
    using assms(2) by (simp add: getCoordinates_length [OF pos] len)
  with reg show ?thesis
    by (simp add: getCoordinates_distinct)
qed

theorem moveShip_registers_witness:
  "\<not> isLocked (moveShip harbour 1 (Some 1, Some 1) None)
   \<and> 0 \<le> length_s (heap (moveShip harbour 1 (Some 1, Some 1) None) 1)
   \<and> (\<forall>p. registered (moveShip harbour 1 (Some 1, Some 1) None) 1 p
         \<longleftrightarrow> p \<in> set (getCoordinates (heap (moveShip harbour 1 (Some 1, Some 1) None) 1)))
   \<and> getCoordinates (heap (moveShip harbour 1 (Some 1, Some 1) None) 1)
       = [(Some 1, Some 1), (Some 2, Some 1)]
   \<and> (\<forall>p. registered
             (moveShip (moveShip harbour 1 (Some 1, Some 1) None) 1 (Some 2, Some 1) None) 1 p
         \<longleftrightarrow> p \<in> {(Some 2, Some 1), (Some 3, Some 1)})
   \<and> \<not> registered
         (moveShip (moveShip harbour 1 (Some 1, Some 1) None) 1 (Some 2, Some 1) None) 1
         (Some 1, Some 1)"
proof -
  let ?b1 = "moveShip harbour 1 (Some 1, Some 1) None"
  let ?b2 = "moveShip ?b1 1 (Some 2, Some 1) None"
  have h0: "\<not> isLocked harbour" "0 \<le> length_s (heap harbour 1)"
    "\<forall>p. registered harbour 1 p \<longrightarrow> p \<in> set (getCoordinates (heap harbour 1))"
    by (simp_all add: harbour_def newBattlefield_def fleet_def newShip_def registered_def
        getField_def)
  have h1: "\<not> isLocked ?b1" "0 \<le> length_s (heap ?b1 1)"
    using h0 by (simp_all add: moveShip_frame moveShip_heap)
  have reg1: "\<forall>p. registered ?b1 1 p \<longleftrightarrow> p \<in> set (getCoordinates (heap ?b1 1))"
    using moveShip_registers [OF h0, of 1 1 None] by simp
  then have inv1: "\<forall>p. registered ?b1 1 p \<longrightarrow> p \<in> set (getCoordinates (heap ?b1 1))"
    by simp
  have c1: "getCoordinates (heap ?b1 1) = [(Some 1, Some 1), (Some 2, Some 1)]"
    by code_simp
  have c2: "getCoordinates (heap ?b2 1) = [(Some 2, Some 1), (Some 3, Some 1)]"
    by code_simp
  show ?thesis
    using moveShip_registers [OF h1 inv1, of 2 1 None] h1 reg1 c1 c2 by simp
qed

text \<open>
  Claim C2, as stated, fails: \<open>moveShip\<close> deletes a field whose only occupant moves
  away without looking at the marker. The field at \<open>[ 2, 1 ]\<close> is marked missed and
  holds ship 1 alone; after ship 1 moves to \<open>[ 3, 3 ]\<close> the index has no field there.
\<close>

theorem moveShip_deletes_marked_field:
  "\<not> isLocked shotBoard
   \<and> (Some 2, Some 1) \<in> set (getCoordinates (heap shotBoard 1))
   \<and> getField shotBoard (Some 2, Some 1)
       = Some \<lparr>position_f = (Some 2, Some 1), ships = [1], marker = MarkedMissed\<rparr>
   \<and> (Some 2, Some 1) \<notin> set (getCoordinates (heap (moveShip shotBoard 1 (Some 3, Some 3) None) 1))
   \<and> getField (moveShip shotBoard 1 (Some 3, Some 3) None) (Some 2, Some 1) = None"
  by code_simp

text \<open>
  Claim C2, amended. When a ship moves away from a cell by an unlocked \<open>moveShip\<close>, the
  field of that cell is deleted from the index if the ship was its only occupant, marked
  or not; otherwise it stays, with its marker, without the ship. No other field is
  deleted: a field that is gone after the call was on an old cell of the ship and held
  that ship alone.
\<close>

theorem moveShip_leaves_field:
  assumes "\<not> isLocked b"
  shows "(p \<in> set (getCoordinates (heap b sid))
          \<and> p \<notin> set (getCoordinates (heap (moveShip b sid pos rot) sid))
          \<and> getField b p = Some f \<and> getShip f sid \<noteq> None
        \<longrightarrow> getField (moveShip b sid pos rot) p
              = (if length_f f = 1 then None
                 else Some (f\<lparr>ships := removeAll sid (ships f)\<rparr>)))
    \<and> (getField b q = Some g \<and> getField (moveShip b sid pos rot) q = None
        \<longrightarrow> q \<in> set (getCoordinates (heap b sid)) \<and> ships g = [sid])"
proof -
  let ?new = "getCoordinates (heap (moveShip b sid pos rot) sid)"
  let ?old = "getCoordinates (heap b sid)"
  have stays: "getField (moveShip b sid pos rot) p
      = (if length_f f = 1 then None else Some (f\<lparr>ships := removeAll sid (ships f)\<rparr>))"
    if a: "p \<in> set ?old \<and> p \<notin> set ?new \<and> getField b p = Some f \<and> getShip f sid \<noteq> None"
  proof -
    from a have "sid \<in> set (ships f)"
      by (simp add: getShip_def split: if_splits)
    with a show ?thesis
      by (simp add: getField_def moveShip_index_at [OF assms] enterAll_outside join_x_mem
          leaveAll_index vacated_Some)
  qed
  have deleted: "q \<in> set ?old \<and> ships g = [sid]"
    if a: "getField b q = Some g \<and> getField (moveShip b sid pos rot) q = None"
  proof -
    have notnew: "q \<notin> set ?new"
    proof
      assume "q \<in> set ?new"
      then have "join_x q \<in> join_x ` set ?new"
        by simp
      then have "getField (moveShip b sid pos rot) q \<noteq> None"
        unfolding getField_def moveShip_index_at [OF assms] by (rule enterAll_present)
      with a show False
        by simp
    qed
    from a have before: "map_of (fields_b b) (join_x q) = Some g"
      and after: "map_of (fields_b (moveShip b sid pos rot)) (join_x q) = None"
      by (simp_all add: getField_def)
    from notnew have "map_of (fields_b (moveShip b sid pos rot)) (join_x q)
        = (if q \<in> set ?old then vacated sid (Some g) else Some g)"
      by (simp add: moveShip_index_at [OF assms] enterAll_outside join_x_mem leaveAll_index
          before)
    with after have gone: "(if q \<in> set ?old then vacated sid (Some g) else Some g) = None"
      by simp
    then have old: "q \<in> set ?old"
      by (simp split: if_splits)
    with gone have "vacated sid (Some g) = None"
      by simp
    then have "ships g = [sid]"
      by (rule vacated_None)
    with old show ?thesis
      by simp
  qed
  from stays deleted show ?thesis
    by blast
qed

theorem moveShip_leaves_field_witness:
  "\<not> isLocked shotBoard
   \<and> getCoordinates (heap shotBoard 1) = [(Some 1, Some 1), (Some 2, Some 1)]
   \<and> getCoordinates (heap (moveShip shotBoard 1 (Some 3, Some 3) None) 1)
       = [(Some 3, Some 3), (Some 4, Some 3)]
   \<and> getField shotBoard (Some 1, Some 1)
       = Some \<lparr>position_f = (Some 1, Some 1), ships = [0, 1], marker = MarkedHit\<rparr>
   \<and> getField (moveShip shotBoard 1 (Some 3, Some 3) None) (Some 1, Some 1)
       = Some \<lparr>position_f = (Some 1, Some 1), ships = [0], marker = MarkedHit\<rparr>"
proof -
  have h: "\<not> isLocked shotBoard"
    by code_simp
  have c1: "getCoordinates (heap shotBoard 1) = [(Some 1, Some 1), (Some 2, Some 1)]"
    by code_simp
  have c2: "getCoordinates (heap (moveShip shotBoard 1 (Some 3, Some 3) None) 1)
      = [(Some 3, Some 3), (Some 4, Some 3)]"
    by code_simp
  have f1: "getField shotBoard (Some 1, Some 1)
      = Some \<lparr>position_f = (Some 1, Some 1), ships = [0, 1], marker = MarkedHit\<rparr>"
    by code_simp
  show ?thesis
    using moveShip_leaves_field [OF h, of "(Some 1, Some 1)" 1 "(Some 3, Some 3)" None
        "\<lparr>position_f = (Some 1, Some 1), ships = [0, 1], marker = MarkedHit\<rparr>"]
      h c1 c2 f1
    by (simp add: getShip_def length_f_def)
qed

section \<open>The random placement strategy: properties\<close>






































end
